theory Spec2Isabelle
  imports Main "HOL-Library.AList"
begin

section \<open>The adapter of aristotle-mcp (src/main.py)\<close>

text \<open>
  The module registers six tools and two resources. Each one calls the external client
  library (the class \<open>Project\<close> of aristotlelib), formats the answer, and in the
  submission tools records the new project id in the module-level set
  \<open>monitored_projects\<close>. The model is sequential state passing: an operation takes the
  client and the world (file system, monitored set, the log of calls made to the client)
  and returns what the Python coroutine returns or raises, with the world after it.
\<close>

subsection \<open>Values of the external library\<close>

type_synonym path = string

text \<open>
  Modelled from the spec: the enumeration \<open>ProjectStatus\<close> is declared in aristotlelib, not
  in this repository. The spec names the states submitted, running, complete and failed;
  \<open>status_value\<close> is the \<open>.value\<close> of a member, its upper-case name.
\<close>

datatype project_status = SUBMITTED | RUNNING | COMPLETE | FAILED

fun status_value :: "project_status \<Rightarrow> string" where
  "status_value SUBMITTED = ''SUBMITTED''"
| "status_value RUNNING = ''RUNNING''"
| "status_value COMPLETE = ''COMPLETE''"
| "status_value FAILED = ''FAILED''"

text \<open>
  Modelled from the spec: a timestamp is a \<open>datetime\<close> of the Python standard library. The
  source renders it in two ways: \<open>d.isoformat()\<close> puts the letter T between the date and
  the time of day, and an f-string (\<open>str(d)\<close>) puts a space there. The record keeps the two
  parts as the texts both renderings share.
\<close>

record datetime =
  date_part :: string
  time_part :: string

definition isoformat :: "datetime \<Rightarrow> string" where
  "isoformat d = date_part d @ ''T'' @ time_part d"

definition str_datetime :: "datetime \<Rightarrow> string" where
  "str_datetime d = date_part d @ '' '' @ time_part d"

text \<open>
  Modelled from the spec: the attributes of a \<open>Project\<close> that the adapter reads.
  \<open>file_name\<close> and \<open>description\<close> may be \<open>None\<close>.
\<close>

record project =
  project_id :: string
  status :: project_status
  created_at :: datetime
  last_updated_at :: datetime
  file_name :: "string option"
  description :: "string option"

datatype project_input_type = FORMAL_LEAN | INFORMAL

text \<open>The keyword arguments of \<open>Project.prove_from_file\<close>; an argument left out is \<open>None\<close>.\<close>

record submit_request =
  input_file_path :: "path option"
  input_content :: "string option"
  project_input_type :: project_input_type
  formal_input_context :: "string option"
  wait_for_completion :: bool

subsection \<open>Exceptions\<close>

text \<open>
  An exception is a value carrying its message \<open>str(e)\<close>. \<open>FileNotFoundError\<close> is the one
  the adapter raises itself; \<open>Exception m\<close> is any other exception derived from
  \<open>Exception\<close> (a client error, an \<open>OSError\<close> of a write); \<open>BaseException m\<close> is one that
  is not derived from \<open>Exception\<close> (cancellation, keyboard interrupt), which
  \<open>except Exception\<close> lets through.
\<close>

datatype exn = FileNotFoundError string | Exception string | BaseException string

fun is_Exception :: "exn \<Rightarrow> bool" where
  "is_Exception (FileNotFoundError m) = True"
| "is_Exception (Exception m) = True"
| "is_Exception (BaseException m) = False"

fun str_exn :: "exn \<Rightarrow> string" where
  "str_exn (FileNotFoundError m) = m"
| "str_exn (Exception m) = m"
| "str_exn (BaseException m) = m"

subsection \<open>The external client\<close>

text \<open>
  The four entry points of aristotlelib that the adapter awaits. A client is the behaviour
  of the service during one operation: for each call, the exception it raises (\<open>Inl\<close>) or
  what it returns (\<open>Inr\<close>). \<open>list_projects\<close> returns the projects with a pagination
  cursor. \<open>get_solution\<close> is told an output path inside a fresh temporary directory; its
  result is what it leaves at that path: \<open>Some t\<close> when it writes the text \<open>t\<close>,
  \<open>None\<close> when it returns without writing.
\<close>

record client =
  prove_from_file :: "submit_request \<Rightarrow> exn + string"
  from_id :: "string \<Rightarrow> exn + project"
  list_projects :: "int \<Rightarrow> exn + (project list \<times> string option)"
  get_solution :: "project \<Rightarrow> exn + string option"

datatype client_call =
    ProveFromFile submit_request
  | FromId string
  | ListProjects int
  | GetSolution project

subsection \<open>The world of the process\<close>

datatype node = File string | Directory

text \<open>
  \<open>fs\<close> maps each existing path to what is there. \<open>write_error p\<close> is the message of the
  \<open>OSError\<close> that writing at \<open>p\<close> raises (a directory at \<open>p\<close>, a missing parent, no
  permission, a full disk), \<open>None\<close> when the write goes through. \<open>absolute p\<close> is
  \<open>str(Path(p).absolute())\<close>, which depends on the working directory.
  \<open>client_calls\<close> logs every call made to the client, \<open>ctx_messages\<close> every message sent
  through the tool context.
\<close>

record world =
  fs :: "path \<rightharpoonup> node"
  write_error :: "path \<rightharpoonup> string"
  absolute :: "path \<Rightarrow> path"
  monitored_projects :: "string set"
  client_calls :: "client_call list"
  ctx_messages :: "string list"

definition path_exists :: "world \<Rightarrow> path \<Rightarrow> bool" where
  "path_exists w p = (fs w p \<noteq> None)"

definition write_text :: "path \<Rightarrow> string \<Rightarrow> world \<Rightarrow> (exn + unit) \<times> world" where
  "write_text p s w =
     (case write_error w p of
        Some m \<Rightarrow> (Inl (Exception m), w)
      | None \<Rightarrow> (Inr (), w\<lparr>fs := (fs w)(p \<mapsto> File s)\<rparr>))"

text \<open>
  \<open>if save_to:\<close> on an optional string: \<open>None\<close> and the empty string are false. The
  result is the path that the guarded block then writes to.
\<close>

fun save_target :: "string option \<Rightarrow> path option" where
  "save_target None = None"
| "save_target (Some s) = (if s = [] then None else Some s)"

datatype mcp_context = Context

definition ctx_info :: "mcp_context option \<Rightarrow> string \<Rightarrow> world \<Rightarrow> world" where
  "ctx_info ctx msg w =
     (case ctx of
        None \<Rightarrow> w
      | Some c \<Rightarrow> w\<lparr>ctx_messages := ctx_messages w @ [msg]\<rparr>)"

text \<open>Each await of the client is logged before its outcome is looked at.\<close>

definition call_prove_from_file ::
    "client \<Rightarrow> submit_request \<Rightarrow> world \<Rightarrow> (exn + string) \<times> world" where
  "call_prove_from_file cl rq w =
     (prove_from_file cl rq, w\<lparr>client_calls := client_calls w @ [ProveFromFile rq]\<rparr>)"

definition call_from_id :: "client \<Rightarrow> string \<Rightarrow> world \<Rightarrow> (exn + project) \<times> world" where
  "call_from_id cl pid w =
     (from_id cl pid, w\<lparr>client_calls := client_calls w @ [FromId pid]\<rparr>)"

definition call_list_projects ::
    "client \<Rightarrow> int \<Rightarrow> world \<Rightarrow> (exn + (project list \<times> string option)) \<times> world" where
  "call_list_projects cl limit w =
     (list_projects cl limit, w\<lparr>client_calls := client_calls w @ [ListProjects limit]\<rparr>)"

definition call_get_solution ::
    "client \<Rightarrow> project \<Rightarrow> world \<Rightarrow> (exn + string option) \<times> world" where
  "call_get_solution cl p w =
     (get_solution cl p, w\<lparr>client_calls := client_calls w @ [GetSolution p]\<rparr>)"

subsection \<open>JSON\<close>

text \<open>
  A Python dictionary keeps insertion order: \<open>data[k] = v\<close> replaces the value of an
  existing key in place and appends a new key, which is \<open>AList.update\<close>.
  The string that \<open>json.dumps(data, indent=2)\<close> returns is kept as the term
  \<open>json_dumps data 2\<close>: the value serialised and the indentation.
\<close>

datatype json = JNull | JString string | JArray "json list" | JObject "(string \<times> json) list"

datatype json_text = json_dumps json nat

fun json_of_optional :: "string option \<Rightarrow> json" where
  "json_of_optional None = JNull"
| "json_of_optional (Some s) = JString s"

subsection \<open>The submission tools\<close>

text \<open>
  The last two statements of every submission tool: the id is added to
  \<open>monitored_projects\<close> and the confirmation is returned. \<open>tail\<close> is what the f-string
  puts after the id.
\<close>

definition submitted :: "string \<Rightarrow> string \<Rightarrow> world \<Rightarrow> (exn + string) \<times> world" where
  "submitted pid tail w =
     (Inr (''Project started with ID: '' @ pid @ tail),
      w\<lparr>monitored_projects := insert pid (monitored_projects w)\<rparr>)"

definition prove_lean_file ::
    "client \<Rightarrow> path \<Rightarrow> mcp_context option \<Rightarrow> world \<Rightarrow> (exn + string) \<times> world" where
  "prove_lean_file cl file_path ctx w =
     (if \<not> path_exists w file_path
      then (Inl (FileNotFoundError (''File not found: '' @ file_path)), w)
      else
        (case call_prove_from_file cl
                \<lparr>input_file_path = Some file_path, input_content = None,
                 project_input_type = FORMAL_LEAN, formal_input_context = None,
                 wait_for_completion = False\<rparr>
                (ctx_info ctx (''Submitting '' @ file_path @ '' to Aristotle...'') w) of
           (Inl e, w') \<Rightarrow> (Inl e, w')
         | (Inr pid, w') \<Rightarrow>
             submitted pid ''. You will be notified when it completes.'' w'))"

definition prove_informal ::
    "client \<Rightarrow> path \<Rightarrow> string option \<Rightarrow> mcp_context option \<Rightarrow> world
      \<Rightarrow> (exn + string) \<times> world" where
  "prove_informal cl file_path formal_context_path ctx w =
     (if \<not> path_exists w file_path
      then (Inl (FileNotFoundError (''File not found: '' @ file_path)), w)
      else
        (case call_prove_from_file cl
                \<lparr>input_file_path = Some file_path, input_content = None,
                 project_input_type = INFORMAL, formal_input_context = formal_context_path,
                 wait_for_completion = False\<rparr>
                (ctx_info ctx (''Submitting informal file '' @ file_path @ '' to Aristotle...'') w) of
           (Inl e, w') \<Rightarrow> (Inl e, w')
         | (Inr pid, w') \<Rightarrow>
             submitted pid ''. You will be notified when it completes.'' w'))"

definition prove_lean_code ::
    "client \<Rightarrow> string \<Rightarrow> mcp_context option \<Rightarrow> world \<Rightarrow> (exn + string) \<times> world" where
  "prove_lean_code cl lean_code ctx w =
     (case call_prove_from_file cl
             \<lparr>input_file_path = None, input_content = Some lean_code,
              project_input_type = FORMAL_LEAN, formal_input_context = None,
              wait_for_completion = False\<rparr>
             (ctx_info ctx ''Submitting Lean code to Aristotle...'' w) of
        (Inl e, w') \<Rightarrow> (Inl e, w')
      | (Inr pid, w') \<Rightarrow> submitted pid ''.'' w')"

definition prove_informal_text ::
    "client \<Rightarrow> string \<Rightarrow> string option \<Rightarrow> mcp_context option \<Rightarrow> world
      \<Rightarrow> (exn + string) \<times> world" where
  "prove_informal_text cl text formal_context_path ctx w =
     (case call_prove_from_file cl
             \<lparr>input_file_path = None, input_content = Some text,
              project_input_type = INFORMAL, formal_input_context = formal_context_path,
              wait_for_completion = False\<rparr>
             (ctx_info ctx ''Submitting informal text to Aristotle...'' w) of
        (Inl e, w') \<Rightarrow> (Inl e, w')
      | (Inr pid, w') \<Rightarrow> submitted pid ''.'' w')"

subsection \<open>Status of one project\<close>

type_synonym pydict = "(string \<times> json) list"

text \<open>
  The body of the \<open>try\<close> in \<open>get_project_status\<close>. The temporary directory is fresh, so
  \<open>output_path\<close> exists after \<open>get_solution\<close> exactly when the client wrote it; the
  directory is removed when the block is left. The result is the exception that leaves
  the block, if any, with the dictionary and the world as they are at that moment: an
  entry stored before a later statement raises stays in \<open>data\<close>.
\<close>

definition try_solution_and_save ::
    "client \<Rightarrow> project \<Rightarrow> string option \<Rightarrow> pydict \<Rightarrow> world
      \<Rightarrow> exn option \<times> pydict \<times> world" where
  "try_solution_and_save cl project save_solution_to data w =
     (case call_get_solution cl project w of
        (Inl e, w1) \<Rightarrow> (Some e, data, w1)
      | (Inr None, w1) \<Rightarrow> (None, data, w1)
      | (Inr (Some solution_content), w1) \<Rightarrow>
          (let data1 = AList.update ''solution'' (JString solution_content) data in
           case save_target save_solution_to of
             None \<Rightarrow> (None, data1, w1)
           | Some save_path \<Rightarrow>
               (case write_text save_path solution_content w1 of
                  (Inl e, w2) \<Rightarrow> (Some e, data1, w2)
                | (Inr u, w2) \<Rightarrow>
                    (None,
                     AList.update ''saved_to'' (JString (absolute w2 save_path)) data1,
                     w2))))"

definition get_project_status ::
    "client \<Rightarrow> string \<Rightarrow> string option \<Rightarrow> world \<Rightarrow> (exn + json_text) \<times> world" where
  "get_project_status cl pid save_solution_to w =
     (case call_from_id cl pid w of
        (Inl e, w1) \<Rightarrow> (Inl e, w1)
      | (Inr project, w1) \<Rightarrow>
          (let data =
                 [(''project_id'', JString (project_id project)),
                  (''status'', JString (status_value (status project))),
                  (''created_at'', JString (isoformat (created_at project))),
                  (''last_updated_at'', JString (isoformat (last_updated_at project))),
                  (''file_name'', json_of_optional (file_name project)),
                  (''description'', json_of_optional (description project))]
           in
             if status project = COMPLETE then
               (case try_solution_and_save cl project save_solution_to data w1 of
                  (None, data', w2) \<Rightarrow> (Inr (json_dumps (JObject data') 2), w2)
                | (Some e, data', w2) \<Rightarrow>
                    if is_Exception e
                    then (Inr (json_dumps
                            (JObject (AList.update ''solution_error'' (JString (str_exn e)) data'))
                            2), w2)
                    else (Inl e, w2))
             else (Inr (json_dumps (JObject data) 2), w1)))"

text \<open>The body of the \<open>try\<close> in \<open>get_project_resource\<close>, which has no save path.\<close>

definition try_solution ::
    "client \<Rightarrow> project \<Rightarrow> pydict \<Rightarrow> world \<Rightarrow> exn option \<times> pydict \<times> world" where
  "try_solution cl project data w =
     (case call_get_solution cl project w of
        (Inl e, w1) \<Rightarrow> (Some e, data, w1)
      | (Inr None, w1) \<Rightarrow> (None, data, w1)
      | (Inr (Some solution_content), w1) \<Rightarrow>
          (None, AList.update ''solution'' (JString solution_content) data, w1))"

definition get_project_resource ::
    "client \<Rightarrow> string \<Rightarrow> world \<Rightarrow> (exn + json_text) \<times> world" where
  "get_project_resource cl pid w =
     (case call_from_id cl pid w of
        (Inl e, w1) \<Rightarrow> (Inl e, w1)
      | (Inr project, w1) \<Rightarrow>
          (let data =
                 [(''project_id'', JString (project_id project)),
                  (''status'', JString (status_value (status project))),
                  (''created_at'', JString (isoformat (created_at project))),
                  (''last_updated_at'', JString (isoformat (last_updated_at project))),
                  (''file_name'', json_of_optional (file_name project)),
                  (''description'', json_of_optional (description project))]
           in
             if status project = COMPLETE then
               (case try_solution cl project data w1 of
                  (None, data', w2) \<Rightarrow> (Inr (json_dumps (JObject data') 2), w2)
                | (Some e, data', w2) \<Rightarrow>
                    if is_Exception e
                    then (Inr (json_dumps
                            (JObject (AList.update ''solution_error'' (JString (str_exn e)) data'))
                            2), w2)
                    else (Inl e, w2))
             else (Inr (json_dumps (JObject data) 2), w1)))"

subsection \<open>Listings\<close>

text \<open>\<open>sep.join(lines)\<close>.\<close>

fun join :: "string \<Rightarrow> string list \<Rightarrow> string" where
  "join sep [] = []"
| "join sep [x] = x"
| "join sep (x # y # ys) = x @ sep @ join sep (y # ys)"

text \<open>The f-string of the loop body; the timestamp is rendered by \<open>str\<close>, not \<open>isoformat\<close>.\<close>

definition project_line :: "project \<Rightarrow> string" where
  "project_line p =
     ''Project: '' @ project_id p @ '', Status: '' @ status_value (status p)
       @ '', Created: '' @ str_datetime (created_at p)"

definition list_recent_projects ::
    "client \<Rightarrow> int \<Rightarrow> string option \<Rightarrow> world \<Rightarrow> (exn + string) \<times> world" where
  "list_recent_projects cl limit save_to w =
     (case call_list_projects cl limit w of
        (Inl e, w1) \<Rightarrow> (Inl e, w1)
      | (Inr (projects, cursor), w1) \<Rightarrow>
          (let result = join [CHR 0x0A] (map project_line projects) in
           case save_target save_to of
             Some save_path \<Rightarrow>
               (case write_text save_path result w1 of
                  (Inl e, w2) \<Rightarrow> (Inl e, w2)
                | (Inr u, w2) \<Rightarrow> (Inr (''Project list saved to '' @ save_path), w2))
           | None \<Rightarrow> (Inr result, w1)))"

definition project_summary :: "project \<Rightarrow> json" where
  "project_summary p =
     JObject
       [(''project_id'', JString (project_id p)),
        (''status'', JString (status_value (status p))),
        (''created_at'', JString (isoformat (created_at p))),
        (''file_name'', json_of_optional (file_name p)),
        (''description'', json_of_optional (description p))]"

definition list_projects_resource :: "client \<Rightarrow> world \<Rightarrow> (exn + json_text) \<times> world" where
  "list_projects_resource cl w =
     (case call_list_projects cl 20 w of
        (Inl e, w1) \<Rightarrow> (Inl e, w1)
      | (Inr (projects, cursor), w1) \<Rightarrow>
          (Inr (json_dumps (JArray (map project_summary projects)) 2), w1))"

subsection \<open>The registered operations\<close>

text \<open>
  The six functions registered by \<open>@mcp.tool()\<close> and the two registered by
  \<open>@mcp.resource(...)\<close>, each with the arguments of one invocation.
\<close>

datatype invocation =
    Prove_lean_file path "mcp_context option"
  | Prove_informal path "string option" "mcp_context option"
  | Get_project_status string "string option"
  | List_recent_projects int "string option"
  | Prove_lean_code string "mcp_context option"
  | Prove_informal_text string "string option" "mcp_context option"
  | List_projects_resource
  | Get_project_resource string

text \<open>The world that one invocation leaves behind, whether it returns or raises.\<close>

fun world_after :: "client \<Rightarrow> invocation \<Rightarrow> world \<Rightarrow> world" where
  "world_after cl (Prove_lean_file fp ctx) w = snd (prove_lean_file cl fp ctx w)"
| "world_after cl (Prove_informal fp fc ctx) w = snd (prove_informal cl fp fc ctx w)"
| "world_after cl (Get_project_status pid sv) w = snd (get_project_status cl pid sv w)"
| "world_after cl (List_recent_projects limit sv) w = snd (list_recent_projects cl limit sv w)"
| "world_after cl (Prove_lean_code code ctx) w = snd (prove_lean_code cl code ctx w)"
| "world_after cl (Prove_informal_text txt fc ctx) w = snd (prove_informal_text cl txt fc ctx w)"
| "world_after cl List_projects_resource w = snd (list_projects_resource cl w)"
| "world_after cl (Get_project_resource pid) w = snd (get_project_resource cl pid w)"

text \<open>
  The life of the process: invocations served one after the other, each against the
  behaviour the service shows at that time.
\<close>

fun serve :: "(client \<times> invocation) list \<Rightarrow> world \<Rightarrow> world" where
  "serve [] w = w"
| "serve ((cl, call) # rest) w = serve rest (world_after cl call w)"

subsection \<open>Example inputs\<close>

text \<open>
  A small service and process state on which the operations are evaluated below: one
  finished project and one running project, an existing Lean file, and a path that
  refuses writes.
\<close>

definition example_project :: project where
  "example_project =
     \<lparr>project_id = ''p-1'', status = COMPLETE,
      created_at = \<lparr>date_part = ''2025-01-02'', time_part = ''03:04:05''\<rparr>,
      last_updated_at = \<lparr>date_part = ''2025-01-02'', time_part = ''04:00:00''\<rparr>,
      file_name = Some ''foo.lean'', description = None\<rparr>"

definition example_running :: project where
  "example_running =
     \<lparr>project_id = ''p-2'', status = RUNNING,
      created_at = \<lparr>date_part = ''2025-01-03'', time_part = ''10:00:00''\<rparr>,
      last_updated_at = \<lparr>date_part = ''2025-01-03'', time_part = ''10:00:30''\<rparr>,
      file_name = None, description = Some ''informal''\<rparr>"

definition example_client :: client where
  "example_client =
     \<lparr>prove_from_file = (\<lambda>rq. Inr ''p-1''),
      from_id = (\<lambda>i. if i = ''p-1'' then Inr example_project
                     else if i = ''p-2'' then Inr example_running
                     else Inl (Exception ''unknown project'')),
      list_projects = (\<lambda>limit. Inr ([example_project, example_running], None)),
      get_solution = (\<lambda>p. Inr (Some ''theorem foo := trivial''))\<rparr>"

text \<open>The same service when retrieval raises, and when it returns without writing.\<close>

definition failing_client :: client where
  "failing_client = example_client\<lparr>get_solution := (\<lambda>p. Inl (Exception ''disk full''))\<rparr>"

definition noop_client :: client where
  "noop_client = example_client\<lparr>get_solution := (\<lambda>p. Inr None)\<rparr>"

definition example_world :: world where
  "example_world =
     \<lparr>fs = [''/tmp/in.lean'' \<mapsto> File ''theorem foo : True := sorry''],
      write_error = [''/ro/out.lean'' \<mapsto> ''[Errno 13] Permission denied''],
      absolute = (\<lambda>p. if take 1 p = ''/'' then p else ''/work/'' @ p),
      monitored_projects = {},
      client_calls = [],
      ctx_messages = []\<rparr>"

section \<open>Properties\<close>

subsection \<open>Shared facts\<close>

lemmas client_call_defs =
  call_prove_from_file_def call_from_id_def call_list_projects_def call_get_solution_def

lemmas status_defs =
  get_project_status_def get_project_resource_def try_solution_and_save_def try_solution_def
  call_from_id_def call_get_solution_def write_text_def

lemmas example_defs =
  example_client_def failing_client_def noop_client_def example_world_def
  example_project_def example_running_def

lemma submitted_result:
  "\<exists>msg w'. submitted pid tail w = (Inr msg, w')
     \<and> (\<exists>pre post. msg = pre @ pid @ post) \<and> pid \<in> monitored_projects w'"
proof -
  let ?msg = "''Project started with ID: '' @ pid @ tail"
  let ?w = "w\<lparr>monitored_projects := insert pid (monitored_projects w)\<rparr>"
  have "submitted pid tail w = (Inr ?msg, ?w)"
    unfolding submitted_def by (rule refl)
  moreover have "\<exists>pre post. ?msg = pre @ pid @ post"
    by blast
  moreover have "pid \<in> monitored_projects ?w"
    by simp
  ultimately show ?thesis
    by blast
qed

lemma prove_lean_file_ok:
  assumes "path_exists w fp"
      and "prove_from_file cl
             \<lparr>input_file_path = Some fp, input_content = None,
              project_input_type = FORMAL_LEAN, formal_input_context = None,
              wait_for_completion = False\<rparr> = Inr pid"
  shows "\<exists>w1. prove_lean_file cl fp ctx w
           = submitted pid ''. You will be notified when it completes.'' w1"
  using assms unfolding prove_lean_file_def call_prove_from_file_def by (simp, blast)

lemma prove_informal_ok:
  assumes "path_exists w fp"
      and "prove_from_file cl
             \<lparr>input_file_path = Some fp, input_content = None,
              project_input_type = INFORMAL, formal_input_context = fc,
              wait_for_completion = False\<rparr> = Inr pid"
  shows "\<exists>w1. prove_informal cl fp fc ctx w
           = submitted pid ''. You will be notified when it completes.'' w1"
  using assms unfolding prove_informal_def call_prove_from_file_def by (simp, blast)

lemma prove_lean_code_ok:
  assumes "prove_from_file cl
             \<lparr>input_file_path = None, input_content = Some code,
              project_input_type = FORMAL_LEAN, formal_input_context = None,
              wait_for_completion = False\<rparr> = Inr pid"
  shows "\<exists>w1. prove_lean_code cl code ctx w = submitted pid ''.'' w1"
  using assms unfolding prove_lean_code_def call_prove_from_file_def by (simp, blast)

lemma prove_informal_text_ok:
  assumes "prove_from_file cl
             \<lparr>input_file_path = None, input_content = Some txt,
              project_input_type = INFORMAL, formal_input_context = fc,
              wait_for_completion = False\<rparr> = Inr pid"
  shows "\<exists>w1. prove_informal_text cl txt fc ctx w = submitted pid ''.'' w1"
  using assms unfolding prove_informal_text_def call_prove_from_file_def by (simp, blast)

text \<open>
  A submission that passes the existence check makes exactly one call to the client, so
  the log \<open>client_calls\<close> does tell whether the client was reached.
\<close>

lemma prove_lean_file_calls_client:
  "path_exists w fp \<Longrightarrow>
     length (client_calls (snd (prove_lean_file cl fp ctx w))) = Suc (length (client_calls w))"
  by (simp add: prove_lean_file_def call_prove_from_file_def submitted_def ctx_info_def
      split: sum.splits option.splits)

lemma prove_informal_calls_client:
  "path_exists w fp \<Longrightarrow>
     length (client_calls (snd (prove_informal cl fp fc ctx w))) = Suc (length (client_calls w))"
  by (simp add: prove_informal_def call_prove_from_file_def submitted_def ctx_info_def
      split: sum.splits option.splits)

text \<open>The tool called without a save path and the resource are the same function.\<close>

lemma tool_without_save_is_resource:
  "get_project_status cl pid None w = get_project_resource cl pid w"
  by (cases "from_id cl pid")
     (auto simp: status_defs Let_def split: sum.splits option.splits)

text \<open>What each operation does to the monitored set.\<close>

lemma ctx_info_monitored: "monitored_projects (ctx_info ctx msg w) = monitored_projects w"
  by (simp add: ctx_info_def split: option.splits)

lemma prove_lean_file_monitored:
  "monitored_projects w \<subseteq> monitored_projects (snd (prove_lean_file cl fp ctx w))"
  by (auto simp: prove_lean_file_def call_prove_from_file_def submitted_def ctx_info_monitored
      split: sum.splits)

lemma prove_informal_monitored:
  "monitored_projects w \<subseteq> monitored_projects (snd (prove_informal cl fp fc ctx w))"
  by (auto simp: prove_informal_def call_prove_from_file_def submitted_def ctx_info_monitored
      split: sum.splits)

lemma prove_lean_code_monitored:
  "monitored_projects w \<subseteq> monitored_projects (snd (prove_lean_code cl code ctx w))"
  by (auto simp: prove_lean_code_def call_prove_from_file_def submitted_def ctx_info_monitored
      split: sum.splits)

lemma prove_informal_text_monitored:
  "monitored_projects w \<subseteq> monitored_projects (snd (prove_informal_text cl txt fc ctx w))"
  by (auto simp: prove_informal_text_def call_prove_from_file_def submitted_def
      ctx_info_monitored split: sum.splits)

lemma get_project_status_monitored:
  "monitored_projects (snd (get_project_status cl pid sv w)) = monitored_projects w"
  by (cases "save_target sv")
     (auto simp: status_defs Let_def split: sum.splits option.splits)

lemma get_project_resource_monitored:
  "monitored_projects (snd (get_project_resource cl pid w)) = monitored_projects w"
  by (auto simp: status_defs Let_def split: sum.splits option.splits)

lemma list_recent_projects_monitored:
  "monitored_projects (snd (list_recent_projects cl limit sv w)) = monitored_projects w"
  by (cases "save_target sv")
     (auto simp: list_recent_projects_def call_list_projects_def write_text_def Let_def
        split: sum.splits option.splits prod.splits)

lemma list_projects_resource_monitored:
  "monitored_projects (snd (list_projects_resource cl w)) = monitored_projects w"
  by (auto simp: list_projects_resource_def call_list_projects_def
      split: sum.splits prod.splits)

text \<open>Over the life of the process the monitored set only grows.\<close>

lemma world_after_monitored:
  "monitored_projects w \<subseteq> monitored_projects (world_after cl call w)"
  by (cases call)
     (simp_all add: prove_lean_file_monitored prove_informal_monitored
        prove_lean_code_monitored prove_informal_text_monitored get_project_status_monitored
        get_project_resource_monitored list_recent_projects_monitored
        list_projects_resource_monitored)

lemma serve_monitored: "monitored_projects w \<subseteq> monitored_projects (serve steps w)"
proof (induction steps arbitrary: w)
  case Nil
  show ?case by simp
next
  case (Cons step rest)
  obtain cl call where step: "step = (cl, call)"
    by (cases step)
  have "monitored_projects w \<subseteq> monitored_projects (world_after cl call w)"
    by (rule world_after_monitored)
  also have "\<dots> \<subseteq> monitored_projects (serve rest (world_after cl call w))"
    by (rule Cons.IH)
  finally show ?case
    by (simp add: step)
qed

subsection \<open>The operations on the example inputs\<close>

lemma example_prove_lean_file:
  "prove_lean_file example_client ''/tmp/in.lean'' (Some Context) example_world =
     (Inr ''Project started with ID: p-1. You will be notified when it completes.'',
      example_world
        \<lparr>monitored_projects := {''p-1''},
         client_calls :=
           [ProveFromFile
              \<lparr>input_file_path = Some ''/tmp/in.lean'', input_content = None,
               project_input_type = FORMAL_LEAN, formal_input_context = None,
               wait_for_completion = False\<rparr>],
         ctx_messages := [''Submitting /tmp/in.lean to Aristotle...'']\<rparr>)"
  by (simp add: prove_lean_file_def call_prove_from_file_def submitted_def ctx_info_def
      path_exists_def example_defs)

lemma example_get_project_status_saved:
  "fst (get_project_status example_client ''p-1'' (Some ''out.lean'') example_world) =
     Inr (json_dumps
       (JObject
         [(''project_id'', JString ''p-1''),
          (''status'', JString ''COMPLETE''),
          (''created_at'', JString ''2025-01-02T03:04:05''),
          (''last_updated_at'', JString ''2025-01-02T04:00:00''),
          (''file_name'', JString ''foo.lean''),
          (''description'', JNull),
          (''solution'', JString ''theorem foo := trivial''),
          (''saved_to'', JString ''/work/out.lean'')]) 2)"
  by (simp add: status_defs isoformat_def example_defs)

lemma example_get_project_status_running:
  "fst (get_project_status example_client ''p-2'' (Some ''out.lean'') example_world) =
     Inr (json_dumps
       (JObject
         [(''project_id'', JString ''p-2''),
          (''status'', JString ''RUNNING''),
          (''created_at'', JString ''2025-01-03T10:00:00''),
          (''last_updated_at'', JString ''2025-01-03T10:00:30''),
          (''file_name'', JNull),
          (''description'', JString ''informal'')]) 2)"
  by (simp add: status_defs isoformat_def example_defs)

lemma example_list_recent_projects:
  "fst (list_recent_projects example_client 2 None example_world) =
     Inr (''Project: p-1, Status: COMPLETE, Created: 2025-01-02 03:04:05'' @ [CHR 0x0A]
          @ ''Project: p-2, Status: RUNNING, Created: 2025-01-03 10:00:00'')"
  by (simp add: list_recent_projects_def call_list_projects_def project_line_def
      str_datetime_def example_defs)

text \<open>An empty save path counts as no save path: nothing is written and nothing reported.\<close>

lemma example_empty_save_path:
  "get_project_status example_client ''p-1'' (Some []) example_world =
     get_project_status example_client ''p-1'' None example_world"
  by (simp add: status_defs example_defs)

text \<open>
  An exception of the retrieval that is not derived from \<open>Exception\<close> is not caught: the
  call raises it.
\<close>

lemma example_base_exception_propagates:
  "fst (get_project_status
          (example_client\<lparr>get_solution := (\<lambda>p. Inl (BaseException ''cancelled''))\<rparr>)
          ''p-1'' None example_world) = Inl (BaseException ''cancelled'')"
  by (simp add: status_defs example_defs)

subsection \<open>Submission\<close>

text \<open>
  Claim C1. Each of the four submission tools, on a valid input (for the file tools the
  path exists; the client's submit call answers with the identifier \<open>pid\<close>), returns a
  string that has \<open>pid\<close> as a contiguous part, and \<open>pid\<close> is in \<open>monitored_projects\<close> of
  the world the call leaves behind. The request shown is the one the tool sends.
\<close>

theorem submission_reports_and_monitors_id:
  "(path_exists w fp \<and>
    prove_from_file cl
      \<lparr>input_file_path = Some fp, input_content = None, project_input_type = FORMAL_LEAN,
       formal_input_context = None, wait_for_completion = False\<rparr> = Inr pid \<longrightarrow>
      (\<exists>msg w'. prove_lean_file cl fp ctx w = (Inr msg, w')
         \<and> (\<exists>pre post. msg = pre @ pid @ post) \<and> pid \<in> monitored_projects w'))
   \<and> (path_exists w fp \<and>
    prove_from_file cl
      \<lparr>input_file_path = Some fp, input_content = None, project_input_type = INFORMAL,
       formal_input_context = fc, wait_for_completion = False\<rparr> = Inr pid \<longrightarrow>
      (\<exists>msg w'. prove_informal cl fp fc ctx w = (Inr msg, w')
         \<and> (\<exists>pre post. msg = pre @ pid @ post) \<and> pid \<in> monitored_projects w'))
   \<and> (prove_from_file cl
      \<lparr>input_file_path = None, input_content = Some code, project_input_type = FORMAL_LEAN,
       formal_input_context = None, wait_for_completion = False\<rparr> = Inr pid \<longrightarrow>
      (\<exists>msg w'. prove_lean_code cl code ctx w = (Inr msg, w')
         \<and> (\<exists>pre post. msg = pre @ pid @ post) \<and> pid \<in> monitored_projects w'))
   \<and> (prove_from_file cl
      \<lparr>input_file_path = None, input_content = Some txt, project_input_type = INFORMAL,
       formal_input_context = fc, wait_for_completion = False\<rparr> = Inr pid \<longrightarrow>
      (\<exists>msg w'. prove_informal_text cl txt fc ctx w = (Inr msg, w')
         \<and> (\<exists>pre post. msg = pre @ pid @ post) \<and> pid \<in> monitored_projects w'))"
proof (intro conjI impI)
  assume "path_exists w fp \<and>
    prove_from_file cl
      \<lparr>input_file_path = Some fp, input_content = None, project_input_type = FORMAL_LEAN,
       formal_input_context = None, wait_for_completion = False\<rparr> = Inr pid"
  then obtain w1 where
    "prove_lean_file cl fp ctx w = submitted pid ''. You will be notified when it completes.'' w1"
    using prove_lean_file_ok by blast
  then show "\<exists>msg w'. prove_lean_file cl fp ctx w = (Inr msg, w')
         \<and> (\<exists>pre post. msg = pre @ pid @ post) \<and> pid \<in> monitored_projects w'"
    using submitted_result [of pid _ w1] by simp
next
  assume "path_exists w fp \<and>
    prove_from_file cl
      \<lparr>input_file_path = Some fp, input_content = None, project_input_type = INFORMAL,
       formal_input_context = fc, wait_for_completion = False\<rparr> = Inr pid"
  then obtain w1 where
    "prove_informal cl fp fc ctx w = submitted pid ''. You will be notified when it completes.'' w1"
    using prove_informal_ok by blast
  then show "\<exists>msg w'. prove_informal cl fp fc ctx w = (Inr msg, w')
         \<and> (\<exists>pre post. msg = pre @ pid @ post) \<and> pid \<in> monitored_projects w'"
    using submitted_result [of pid _ w1] by simp
next
  assume "prove_from_file cl
      \<lparr>input_file_path = None, input_content = Some code, project_input_type = FORMAL_LEAN,
       formal_input_context = None, wait_for_completion = False\<rparr> = Inr pid"
  then obtain w1 where "prove_lean_code cl code ctx w = submitted pid ''.'' w1"
    using prove_lean_code_ok by blast
  then show "\<exists>msg w'. prove_lean_code cl code ctx w = (Inr msg, w')
         \<and> (\<exists>pre post. msg = pre @ pid @ post) \<and> pid \<in> monitored_projects w'"
    using submitted_result [of pid _ w1] by simp
next
  assume "prove_from_file cl
      \<lparr>input_file_path = None, input_content = Some txt, project_input_type = INFORMAL,
       formal_input_context = fc, wait_for_completion = False\<rparr> = Inr pid"
  then obtain w1 where "prove_informal_text cl txt fc ctx w = submitted pid ''.'' w1"
    using prove_informal_text_ok by blast
  then show "\<exists>msg w'. prove_informal_text cl txt fc ctx w = (Inr msg, w')
         \<and> (\<exists>pre post. msg = pre @ pid @ post) \<and> pid \<in> monitored_projects w'"
    using submitted_result [of pid _ w1] by simp
qed

theorem submission_reports_and_monitors_id_witness:
  "path_exists example_world ''/tmp/in.lean''
   \<and> (\<forall>rq. prove_from_file example_client rq = Inr ''p-1'')
   \<and> (\<exists>msg w'. prove_lean_file example_client ''/tmp/in.lean'' None example_world = (Inr msg, w')
         \<and> (\<exists>pre post. msg = pre @ ''p-1'' @ post) \<and> ''p-1'' \<in> monitored_projects w')
   \<and> (\<exists>msg w'. prove_informal example_client ''/tmp/in.lean'' None None example_world
                  = (Inr msg, w')
         \<and> (\<exists>pre post. msg = pre @ ''p-1'' @ post) \<and> ''p-1'' \<in> monitored_projects w')
   \<and> (\<exists>msg w'. prove_lean_code example_client ''theorem foo : True := sorry'' None example_world
                  = (Inr msg, w')
         \<and> (\<exists>pre post. msg = pre @ ''p-1'' @ post) \<and> ''p-1'' \<in> monitored_projects w')
   \<and> (\<exists>msg w'. prove_informal_text example_client ''every natural number is a sum of four squares''
                    None None example_world = (Inr msg, w')
         \<and> (\<exists>pre post. msg = pre @ ''p-1'' @ post) \<and> ''p-1'' \<in> monitored_projects w')"
proof -
  have present: "path_exists example_world ''/tmp/in.lean''"
    by (simp add: path_exists_def example_world_def)
  have answer: "\<forall>rq. prove_from_file example_client rq = Inr ''p-1''"
    by (simp add: example_client_def)
  from present answer
    submission_reports_and_monitors_id
      [of example_world "''/tmp/in.lean''" example_client "''p-1''" None None
          "''theorem foo : True := sorry''" "''every natural number is a sum of four squares''"]
  show ?thesis
    by blast
qed

text \<open>
  Claim C4. When the path does not exist, both file-based submission tools raise
  \<open>FileNotFoundError\<close> and leave the world as it was: in particular the log of client
  calls has not grown, so the client was never reached.
\<close>

theorem missing_file_fails_before_client:
  assumes "\<not> path_exists w fp"
  shows "prove_lean_file cl fp ctx w = (Inl (FileNotFoundError (''File not found: '' @ fp)), w)
       \<and> prove_informal cl fp fc ctx w = (Inl (FileNotFoundError (''File not found: '' @ fp)), w)
       \<and> client_calls (snd (prove_lean_file cl fp ctx w)) = client_calls w
       \<and> client_calls (snd (prove_informal cl fp fc ctx w)) = client_calls w"
  using assms by (simp add: prove_lean_file_def prove_informal_def)

theorem missing_file_fails_before_client_witness:
  "\<not> path_exists example_world ''/tmp/absent.lean''
   \<and> prove_lean_file example_client ''/tmp/absent.lean'' None example_world
       = (Inl (FileNotFoundError (''File not found: '' @ ''/tmp/absent.lean'')), example_world)
   \<and> prove_informal example_client ''/tmp/absent.lean'' None None example_world
       = (Inl (FileNotFoundError (''File not found: '' @ ''/tmp/absent.lean'')), example_world)
   \<and> client_calls (snd (prove_lean_file example_client ''/tmp/absent.lean'' None example_world))
       = client_calls example_world
   \<and> client_calls (snd (prove_informal example_client ''/tmp/absent.lean'' None None example_world))
       = client_calls example_world"
proof -
  have absent: "\<not> path_exists example_world ''/tmp/absent.lean''"
    by (simp add: path_exists_def example_world_def)
  from absent missing_file_fails_before_client [OF absent, of example_client None None]
  show ?thesis
    by blast
qed

subsection \<open>Status of a project\<close>

text \<open>
  Claim C2. The project is \<open>COMPLETE\<close> and the retrieval of the solution raises an error
  \<open>e\<close> (an exception derived from \<open>Exception\<close>). Then \<open>get_project_status\<close>, with any save
  path, and \<open>get_project_resource\<close> do not raise: each returns a JSON object that has the
  six status fields with the project's values and a field \<open>solution_error\<close> holding the
  message of \<open>e\<close>.
\<close>

theorem solution_error_is_reported:
  assumes "from_id cl pid = Inr p" and "status p = COMPLETE"
      and "get_solution cl p = Inl e" and "is_Exception e"
  shows "(\<exists>d w'. get_project_status cl pid save_solution_to w = (Inr (json_dumps (JObject d) 2), w')
            \<and> map_of d ''project_id'' = Some (JString (project_id p))
            \<and> map_of d ''status'' = Some (JString (status_value (status p)))
            \<and> map_of d ''created_at'' = Some (JString (isoformat (created_at p)))
            \<and> map_of d ''last_updated_at'' = Some (JString (isoformat (last_updated_at p)))
            \<and> map_of d ''file_name'' = Some (json_of_optional (file_name p))
            \<and> map_of d ''description'' = Some (json_of_optional (description p))
            \<and> map_of d ''solution_error'' = Some (JString (str_exn e)))
       \<and> (\<exists>d w'. get_project_resource cl pid w = (Inr (json_dumps (JObject d) 2), w')
            \<and> map_of d ''project_id'' = Some (JString (project_id p))
            \<and> map_of d ''status'' = Some (JString (status_value (status p)))
            \<and> map_of d ''created_at'' = Some (JString (isoformat (created_at p)))
            \<and> map_of d ''last_updated_at'' = Some (JString (isoformat (last_updated_at p)))
            \<and> map_of d ''file_name'' = Some (json_of_optional (file_name p))
            \<and> map_of d ''description'' = Some (json_of_optional (description p))
            \<and> map_of d ''solution_error'' = Some (JString (str_exn e)))"
  using assms by (simp add: status_defs)

theorem solution_error_is_reported_witness:
  "from_id failing_client ''p-1'' = Inr example_project
   \<and> status example_project = COMPLETE
   \<and> get_solution failing_client example_project = Inl (Exception ''disk full'')
   \<and> is_Exception (Exception ''disk full'')
   \<and> (\<exists>d w'. get_project_status failing_client ''p-1'' (Some ''/tmp/out.lean'') example_world
                 = (Inr (json_dumps (JObject d) 2), w')
        \<and> map_of d ''status'' = Some (JString ''COMPLETE'')
        \<and> map_of d ''solution_error'' = Some (JString ''disk full''))
   \<and> (\<exists>d w'. get_project_resource failing_client ''p-1'' example_world
                 = (Inr (json_dumps (JObject d) 2), w')
        \<and> map_of d ''status'' = Some (JString ''COMPLETE'')
        \<and> map_of d ''solution_error'' = Some (JString ''disk full''))"
proof -
  have fetched: "from_id failing_client ''p-1'' = Inr example_project"
    by (simp add: example_defs)
  have complete: "status example_project = COMPLETE"
    by (simp add: example_project_def)
  have raised: "get_solution failing_client example_project = Inl (Exception ''disk full'')"
    by (simp add: example_defs)
  have kind: "is_Exception (Exception ''disk full'')"
    by simp
  have shown: "status_value (status example_project) = ''COMPLETE''"
    "str_exn (Exception ''disk full'') = ''disk full''"
    by (simp_all add: example_project_def)
  from solution_error_is_reported
         [OF fetched complete raised kind, of "Some ''/tmp/out.lean''" example_world]
  have "(\<exists>d w'. get_project_status failing_client ''p-1'' (Some ''/tmp/out.lean'') example_world
                 = (Inr (json_dumps (JObject d) 2), w')
        \<and> map_of d ''status'' = Some (JString ''COMPLETE'')
        \<and> map_of d ''solution_error'' = Some (JString ''disk full''))
   \<and> (\<exists>d w'. get_project_resource failing_client ''p-1'' example_world
                 = (Inr (json_dumps (JObject d) 2), w')
        \<and> map_of d ''status'' = Some (JString ''COMPLETE'')
        \<and> map_of d ''solution_error'' = Some (JString ''disk full''))"
    unfolding shown by blast
  with fetched complete raised kind show ?thesis
    by blast
qed

text \<open>
  Claim C3. For \<open>get_project_status\<close> (any save path) and \<open>get_project_resource\<close>: when the
  project is \<open>COMPLETE\<close> and the retrieval yields the text \<open>t\<close>, the returned object has
  the field \<open>solution\<close> equal to \<open>t\<close>; when the status is not \<open>COMPLETE\<close>, the returned
  object has no field \<open>solution\<close> and no field \<open>solution_error\<close>.
\<close>

theorem solution_field_iff_complete:
  "(from_id cl pid = Inr p \<and> status p = COMPLETE \<and> get_solution cl p = Inr (Some t) \<longrightarrow>
      (\<exists>d w'. get_project_status cl pid save_solution_to w = (Inr (json_dumps (JObject d) 2), w')
          \<and> map_of d ''solution'' = Some (JString t))
    \<and> (\<exists>d w'. get_project_resource cl pid w = (Inr (json_dumps (JObject d) 2), w')
          \<and> map_of d ''solution'' = Some (JString t)))
   \<and> (from_id cl pid' = Inr p' \<and> status p' \<noteq> COMPLETE \<longrightarrow>
      (\<exists>d w'. get_project_status cl pid' save_solution_to w = (Inr (json_dumps (JObject d) 2), w')
          \<and> map_of d ''solution'' = None \<and> map_of d ''solution_error'' = None)
    \<and> (\<exists>d w'. get_project_resource cl pid' w = (Inr (json_dumps (JObject d) 2), w')
          \<and> map_of d ''solution'' = None \<and> map_of d ''solution_error'' = None))"
  by (cases "save_target save_solution_to")
     (auto simp: status_defs AList.update_conv' split: option.splits)

theorem solution_field_iff_complete_witness:
  "from_id example_client ''p-1'' = Inr example_project
   \<and> status example_project = COMPLETE
   \<and> get_solution example_client example_project = Inr (Some ''theorem foo := trivial'')
   \<and> from_id example_client ''p-2'' = Inr example_running
   \<and> status example_running \<noteq> COMPLETE
   \<and> (\<exists>d w'. get_project_status example_client ''p-1'' None example_world
                 = (Inr (json_dumps (JObject d) 2), w')
        \<and> map_of d ''solution'' = Some (JString ''theorem foo := trivial''))
   \<and> (\<exists>d w'. get_project_resource example_client ''p-1'' example_world
                 = (Inr (json_dumps (JObject d) 2), w')
        \<and> map_of d ''solution'' = Some (JString ''theorem foo := trivial''))
   \<and> (\<exists>d w'. get_project_status example_client ''p-2'' None example_world
                 = (Inr (json_dumps (JObject d) 2), w')
        \<and> map_of d ''solution'' = None \<and> map_of d ''solution_error'' = None)
   \<and> (\<exists>d w'. get_project_resource example_client ''p-2'' example_world
                 = (Inr (json_dumps (JObject d) 2), w')
        \<and> map_of d ''solution'' = None \<and> map_of d ''solution_error'' = None)"
proof -
  have fetched: "from_id example_client ''p-1'' = Inr example_project"
    by (simp add: example_defs)
  have complete: "status example_project = COMPLETE"
    by (simp add: example_project_def)
  have solved: "get_solution example_client example_project = Inr (Some ''theorem foo := trivial'')"
    by (simp add: example_defs)
  have fetched': "from_id example_client ''p-2'' = Inr example_running"
    by (simp add: example_defs)
  have running: "status example_running \<noteq> COMPLETE"
    by (simp add: example_running_def)
  from fetched complete solved fetched' running
    solution_field_iff_complete
      [of example_client "''p-1''" example_project "''theorem foo := trivial''" None
          example_world "''p-2''" example_running]
  show ?thesis
    by blast
qed

text \<open>
  Claim C5. For a project id that the client resolves to the project \<open>p\<close> (and a retrieval
  that is not interrupted by an exception outside \<open>Exception\<close>), the tool called without
  a save path and the resource both return a JSON object, and the two objects carry the same
  value, that of \<open>p\<close>, under each of \<open>project_id\<close>, \<open>status\<close>, \<open>created_at\<close>,
  \<open>last_updated_at\<close>, \<open>file_name\<close> and \<open>description\<close>.
\<close>

theorem resource_and_tool_same_metadata:
  assumes "from_id cl pid = Inr p"
      and "\<forall>m. get_solution cl p \<noteq> Inl (BaseException m)"
  shows "\<exists>dt wt dr wr.
           get_project_status cl pid None w = (Inr (json_dumps (JObject dt) 2), wt)
         \<and> get_project_resource cl pid w = (Inr (json_dumps (JObject dr) 2), wr)
         \<and> map_of dt ''project_id'' = Some (JString (project_id p))
         \<and> map_of dr ''project_id'' = Some (JString (project_id p))
         \<and> map_of dt ''status'' = Some (JString (status_value (status p)))
         \<and> map_of dr ''status'' = Some (JString (status_value (status p)))
         \<and> map_of dt ''created_at'' = Some (JString (isoformat (created_at p)))
         \<and> map_of dr ''created_at'' = Some (JString (isoformat (created_at p)))
         \<and> map_of dt ''last_updated_at'' = Some (JString (isoformat (last_updated_at p)))
         \<and> map_of dr ''last_updated_at'' = Some (JString (isoformat (last_updated_at p)))
         \<and> map_of dt ''file_name'' = Some (json_of_optional (file_name p))
         \<and> map_of dr ''file_name'' = Some (json_of_optional (file_name p))
         \<and> map_of dt ''description'' = Some (json_of_optional (description p))
         \<and> map_of dr ''description'' = Some (json_of_optional (description p))"
proof (cases "status p = COMPLETE")
  case False
  with assms(1) show ?thesis
    by (simp add: status_defs)
next
  case True
  show ?thesis
  proof (cases "get_solution cl p")
    case (Inl e)
    with assms(2) have "is_Exception e"
      by (cases e) auto
    with assms(1) True Inl show ?thesis
      by (simp add: status_defs)
  next
    case (Inr out)
    with assms(1) True show ?thesis
      by (cases out) (simp_all add: status_defs)
  qed
qed

theorem resource_and_tool_same_metadata_witness:
  "from_id example_client ''p-1'' = Inr example_project
   \<and> (\<forall>m. get_solution example_client example_project \<noteq> Inl (BaseException m))
   \<and> (\<exists>dt wt dr wr.
           get_project_status example_client ''p-1'' None example_world
             = (Inr (json_dumps (JObject dt) 2), wt)
         \<and> get_project_resource example_client ''p-1'' example_world
             = (Inr (json_dumps (JObject dr) 2), wr)
         \<and> map_of dt ''project_id'' = Some (JString (project_id example_project))
         \<and> map_of dr ''project_id'' = Some (JString (project_id example_project))
         \<and> map_of dt ''status'' = Some (JString (status_value (status example_project)))
         \<and> map_of dr ''status'' = Some (JString (status_value (status example_project)))
         \<and> map_of dt ''created_at'' = Some (JString (isoformat (created_at example_project)))
         \<and> map_of dr ''created_at'' = Some (JString (isoformat (created_at example_project)))
         \<and> map_of dt ''last_updated_at''
             = Some (JString (isoformat (last_updated_at example_project)))
         \<and> map_of dr ''last_updated_at''
             = Some (JString (isoformat (last_updated_at example_project)))
         \<and> map_of dt ''file_name'' = Some (json_of_optional (file_name example_project))
         \<and> map_of dr ''file_name'' = Some (json_of_optional (file_name example_project))
         \<and> map_of dt ''description'' = Some (json_of_optional (description example_project))
         \<and> map_of dr ''description'' = Some (json_of_optional (description example_project)))"
proof -
  have fetched: "from_id example_client ''p-1'' = Inr example_project"
    by (simp add: example_defs)
  have errors_only: "\<forall>m. get_solution example_client example_project \<noteq> Inl (BaseException m)"
    by (simp add: example_defs)
  from fetched errors_only
    resource_and_tool_same_metadata [OF fetched errors_only, of example_world]
  show ?thesis
    by blast
qed

text \<open>
  Claim C6. \<open>get_project_status\<close> is called with a non-empty save path on a \<open>COMPLETE\<close>
  project whose retrieval yields the text \<open>t\<close>, and the file system accepts the write.
  Then the call returns an object whose \<open>solution\<close> is \<open>t\<close>; afterwards the save path
  holds a file with content \<open>t\<close>; and \<open>saved_to\<close> is the absolute form of the save path.
\<close>

theorem saved_solution_written:
  assumes "from_id cl pid = Inr p" and "status p = COMPLETE"
      and "get_solution cl p = Inr (Some t)"
      and "save_path \<noteq> []" and "write_error w save_path = None"
  shows "\<exists>d w'. get_project_status cl pid (Some save_path) w = (Inr (json_dumps (JObject d) 2), w')
            \<and> fs w' save_path = Some (File t)
            \<and> map_of d ''solution'' = Some (JString t)
            \<and> map_of d ''saved_to'' = Some (JString (absolute w save_path))
            \<and> map_of d ''solution_error'' = None"
  using assms by (simp add: status_defs)

theorem saved_solution_written_witness:
  "from_id example_client ''p-1'' = Inr example_project
   \<and> status example_project = COMPLETE
   \<and> get_solution example_client example_project = Inr (Some ''theorem foo := trivial'')
   \<and> ''/tmp/out.lean'' \<noteq> []
   \<and> write_error example_world ''/tmp/out.lean'' = None
   \<and> (\<exists>d w'. get_project_status example_client ''p-1'' (Some ''/tmp/out.lean'') example_world
                 = (Inr (json_dumps (JObject d) 2), w')
        \<and> fs w' ''/tmp/out.lean'' = Some (File ''theorem foo := trivial'')
        \<and> map_of d ''solution'' = Some (JString ''theorem foo := trivial'')
        \<and> map_of d ''saved_to'' = Some (JString ''/tmp/out.lean'')
        \<and> map_of d ''solution_error'' = None)"
proof -
  have fetched: "from_id example_client ''p-1'' = Inr example_project"
    by (simp add: example_defs)
  have complete: "status example_project = COMPLETE"
    by (simp add: example_project_def)
  have solved: "get_solution example_client example_project = Inr (Some ''theorem foo := trivial'')"
    by (simp add: example_defs)
  have given: "''/tmp/out.lean'' \<noteq> []"
    by simp
  have writable: "write_error example_world ''/tmp/out.lean'' = None"
    by (simp add: example_world_def)
  have abs: "absolute example_world ''/tmp/out.lean'' = ''/tmp/out.lean''"
    by (simp add: example_world_def)
  from saved_solution_written [OF fetched complete solved given writable]
  have "\<exists>d w'. get_project_status example_client ''p-1'' (Some ''/tmp/out.lean'') example_world
                 = (Inr (json_dumps (JObject d) 2), w')
        \<and> fs w' ''/tmp/out.lean'' = Some (File ''theorem foo := trivial'')
        \<and> map_of d ''solution'' = Some (JString ''theorem foo := trivial'')
        \<and> map_of d ''saved_to'' = Some (JString ''/tmp/out.lean'')
        \<and> map_of d ''solution_error'' = None"
    unfolding abs .
  with fetched complete solved given writable show ?thesis
    by blast
qed

text \<open>
  Claim C9. The project is \<open>COMPLETE\<close> and the retrieval returns without raising and
  without writing the output file. Then \<open>get_project_status\<close>, with any save path, and
  \<open>get_project_resource\<close> do not raise, and the object each returns has exactly the six
  status fields: no \<open>solution\<close>, no \<open>solution_error\<close> and no \<open>saved_to\<close>.
\<close>

theorem noop_retrieval_only_metadata:
  assumes "from_id cl pid = Inr p" and "status p = COMPLETE"
      and "get_solution cl p = Inr None"
  shows "(\<exists>d w'. get_project_status cl pid save_solution_to w = (Inr (json_dumps (JObject d) 2), w')
            \<and> map fst d = [''project_id'', ''status'', ''created_at'', ''last_updated_at'',
                           ''file_name'', ''description'']
            \<and> map_of d ''solution'' = None \<and> map_of d ''solution_error'' = None
            \<and> map_of d ''saved_to'' = None)
       \<and> (\<exists>d w'. get_project_resource cl pid w = (Inr (json_dumps (JObject d) 2), w')
            \<and> map fst d = [''project_id'', ''status'', ''created_at'', ''last_updated_at'',
                           ''file_name'', ''description'']
            \<and> map_of d ''solution'' = None \<and> map_of d ''solution_error'' = None
            \<and> map_of d ''saved_to'' = None)"
  using assms by (simp add: status_defs)

theorem noop_retrieval_only_metadata_witness:
  "from_id noop_client ''p-1'' = Inr example_project
   \<and> status example_project = COMPLETE
   \<and> get_solution noop_client example_project = Inr None
   \<and> (\<exists>d w'. get_project_status noop_client ''p-1'' (Some ''/tmp/out.lean'') example_world
                 = (Inr (json_dumps (JObject d) 2), w')
        \<and> map fst d = [''project_id'', ''status'', ''created_at'', ''last_updated_at'',
                       ''file_name'', ''description'']
        \<and> map_of d ''solution'' = None \<and> map_of d ''solution_error'' = None
        \<and> map_of d ''saved_to'' = None)
   \<and> (\<exists>d w'. get_project_resource noop_client ''p-1'' example_world
                 = (Inr (json_dumps (JObject d) 2), w')
        \<and> map fst d = [''project_id'', ''status'', ''created_at'', ''last_updated_at'',
                       ''file_name'', ''description'']
        \<and> map_of d ''solution'' = None \<and> map_of d ''solution_error'' = None
        \<and> map_of d ''saved_to'' = None)"
proof -
  have fetched: "from_id noop_client ''p-1'' = Inr example_project"
    by (simp add: example_defs)
  have complete: "status example_project = COMPLETE"
    by (simp add: example_project_def)
  have unwritten: "get_solution noop_client example_project = Inr None"
    by (simp add: example_defs)
  note both =
    noop_retrieval_only_metadata
      [OF fetched complete unwritten, of "Some ''/tmp/out.lean''" example_world]
  show ?thesis
    by (rule conjI [OF fetched conjI [OF complete conjI [OF unwritten both]]])
qed

text \<open>
  Claim C10. \<open>get_project_status\<close> is called with a non-empty save path on a \<open>COMPLETE\<close>
  project, the retrieval yields the text \<open>t\<close>, and writing the copy raises an error with
  message \<open>m\<close>. Then the call does not raise: the object it returns has \<open>solution\<close> equal
  to \<open>t\<close> and \<open>solution_error\<close> equal to \<open>m\<close>, and no \<open>saved_to\<close>.
\<close>

theorem failed_save_keeps_solution:
  assumes "from_id cl pid = Inr p" and "status p = COMPLETE"
      and "get_solution cl p = Inr (Some t)"
      and "save_path \<noteq> []" and "write_error w save_path = Some m"
  shows "\<exists>d w'. get_project_status cl pid (Some save_path) w = (Inr (json_dumps (JObject d) 2), w')
            \<and> map_of d ''solution'' = Some (JString t)
            \<and> map_of d ''solution_error'' = Some (JString m)
            \<and> map_of d ''saved_to'' = None"
  using assms by (simp add: status_defs)

theorem failed_save_keeps_solution_witness:
  "from_id example_client ''p-1'' = Inr example_project
   \<and> status example_project = COMPLETE
   \<and> get_solution example_client example_project = Inr (Some ''theorem foo := trivial'')
   \<and> ''/ro/out.lean'' \<noteq> []
   \<and> write_error example_world ''/ro/out.lean'' = Some ''[Errno 13] Permission denied''
   \<and> (\<exists>d w'. get_project_status example_client ''p-1'' (Some ''/ro/out.lean'') example_world
                 = (Inr (json_dumps (JObject d) 2), w')
        \<and> map_of d ''solution'' = Some (JString ''theorem foo := trivial'')
        \<and> map_of d ''solution_error'' = Some (JString ''[Errno 13] Permission denied'')
        \<and> map_of d ''saved_to'' = None)"
proof -
  have fetched: "from_id example_client ''p-1'' = Inr example_project"
    by (simp add: example_defs)
  have complete: "status example_project = COMPLETE"
    by (simp add: example_project_def)
  have solved: "get_solution example_client example_project = Inr (Some ''theorem foo := trivial'')"
    by (simp add: example_defs)
  have given: "''/ro/out.lean'' \<noteq> []"
    by simp
  have refused: "write_error example_world ''/ro/out.lean'' = Some ''[Errno 13] Permission denied''"
    by (simp add: example_world_def)
  from fetched complete solved given refused
    failed_save_keeps_solution [OF fetched complete solved given refused]
  show ?thesis
    by blast
qed

subsection \<open>Listing\<close>

text \<open>
  \<open>join\<close> written with list functions of the library: every element but the last is
  followed by the separator, and an empty list gives the empty string.
\<close>

lemma join_explicit:
  "join sep xs = (if xs = [] then [] else concat (map (\<lambda>x. x @ sep) (butlast xs)) @ last xs)"
  by (induction sep xs rule: join.induct) simp_all

text \<open>
  Claim C7. \<open>list_recent_projects\<close> is called with limit \<open>n\<close> and no save path, and the
  client answers with a list \<open>ps\<close> of exactly \<open>n\<close> projects. Then the call returns the
  string made of \<open>n\<close> lines, each but the last followed by one newline character (the
  empty string when \<open>n = 0\<close>), and line \<open>i\<close> is built from project \<open>i\<close> of \<open>ps\<close>:
  its id, the value of its status, and its creation time as \<open>str\<close> renders it, date and
  time of day separated by a space.
\<close>

theorem list_recent_projects_lines:
  assumes "list_projects cl (int n) = Inr (ps, cursor)" and "length ps = n"
  shows "\<exists>lines w'.
           list_recent_projects cl (int n) None w =
             (Inr (if lines = [] then []
                   else concat (map (\<lambda>l. l @ [CHR 0x0A]) (butlast lines)) @ last lines), w')
           \<and> length lines = n
           \<and> (\<forall>i<n. lines ! i =
                 ''Project: '' @ project_id (ps ! i)
                   @ '', Status: '' @ status_value (status (ps ! i))
                   @ '', Created: '' @ date_part (created_at (ps ! i)) @ '' ''
                   @ time_part (created_at (ps ! i)))"
proof -
  let ?lines = "map project_line ps"
  have "list_recent_projects cl (int n) None w
          = (Inr (join [CHR 0x0A] ?lines),
             w\<lparr>client_calls := client_calls w @ [ListProjects (int n)]\<rparr>)"
    using assms(1) by (simp add: list_recent_projects_def call_list_projects_def)
  then have "list_recent_projects cl (int n) None w
          = (Inr (if ?lines = [] then []
                  else concat (map (\<lambda>l. l @ [CHR 0x0A]) (butlast ?lines)) @ last ?lines),
             w\<lparr>client_calls := client_calls w @ [ListProjects (int n)]\<rparr>)"
    by (simp only: join_explicit)
  moreover have "length ?lines = n"
    using assms(2) by simp
  moreover have "\<forall>i<n. ?lines ! i =
                 ''Project: '' @ project_id (ps ! i)
                   @ '', Status: '' @ status_value (status (ps ! i))
                   @ '', Created: '' @ date_part (created_at (ps ! i)) @ '' ''
                   @ time_part (created_at (ps ! i))"
    using assms(2) by (simp add: project_line_def str_datetime_def)
  ultimately show ?thesis
    by blast
qed

theorem list_recent_projects_lines_witness:
  "list_projects example_client (int 2) = Inr ([example_project, example_running], None)
   \<and> length [example_project, example_running] = 2
   \<and> (\<exists>w'. list_recent_projects example_client (int 2) None example_world =
              (Inr (''Project: p-1, Status: COMPLETE, Created: 2025-01-02 03:04:05''
                    @ [CHR 0x0A]
                    @ ''Project: p-2, Status: RUNNING, Created: 2025-01-03 10:00:00''), w'))"
proof -
  have listed: "list_projects example_client (int 2) = Inr ([example_project, example_running], None)"
    by (simp add: example_client_def)
  have two: "length [example_project, example_running] = 2"
    by simp
  from list_recent_projects_lines [OF listed two, of example_world]
  obtain lines w' where
    ret: "list_recent_projects example_client (int 2) None example_world =
            (Inr (if lines = [] then []
                  else concat (map (\<lambda>l. l @ [CHR 0x0A]) (butlast lines)) @ last lines), w')"
    and len: "length lines = 2"
    and each: "\<forall>i<2. lines ! i =
                 ''Project: '' @ project_id ([example_project, example_running] ! i)
                   @ '', Status: '' @ status_value (status ([example_project, example_running] ! i))
                   @ '', Created: '' @ date_part (created_at ([example_project, example_running] ! i))
                   @ '' '' @ time_part (created_at ([example_project, example_running] ! i))"
    by blast
  from each have first: "lines ! 0 = ''Project: p-1, Status: COMPLETE, Created: 2025-01-02 03:04:05''"
    by (simp add: example_project_def)
  from each have second: "lines ! 1 = ''Project: p-2, Status: RUNNING, Created: 2025-01-03 10:00:00''"
    by (simp add: example_running_def)
  from len obtain a b where ab: "lines = [a, b]"
    by (cases lines; cases "tl lines") auto
  from first second ab have
    "lines = [''Project: p-1, Status: COMPLETE, Created: 2025-01-02 03:04:05'',
              ''Project: p-2, Status: RUNNING, Created: 2025-01-03 10:00:00'']"
    by simp
  with ret have "list_recent_projects example_client (int 2) None example_world =
              (Inr (''Project: p-1, Status: COMPLETE, Created: 2025-01-02 03:04:05''
                    @ [CHR 0x0A]
                    @ ''Project: p-2, Status: RUNNING, Created: 2025-01-03 10:00:00''), w')"
    by simp
  with listed two show ?thesis
    by blast
qed

subsection \<open>The monitored set\<close>

text \<open>
  Claim C8. Whatever tool or resource is invoked, with whatever arguments and whatever the
  client answers, every identifier in \<open>monitored_projects\<close> before the operation is still
  in it afterwards, also when the operation raises.
\<close>

theorem monitored_projects_append_only:
  "monitored_projects w \<subseteq> monitored_projects (snd (prove_lean_file cl fp ctx w))
   \<and> monitored_projects w \<subseteq> monitored_projects (snd (prove_informal cl fp fc ctx w))
   \<and> monitored_projects w \<subseteq> monitored_projects (snd (get_project_status cl pid sv w))
   \<and> monitored_projects w \<subseteq> monitored_projects (snd (list_recent_projects cl limit sv w))
   \<and> monitored_projects w \<subseteq> monitored_projects (snd (prove_lean_code cl code ctx w))
   \<and> monitored_projects w \<subseteq> monitored_projects (snd (prove_informal_text cl txt fc ctx w))
   \<and> monitored_projects w \<subseteq> monitored_projects (snd (list_projects_resource cl w))
   \<and> monitored_projects w \<subseteq> monitored_projects (snd (get_project_resource cl pid w))"
  by (simp add: prove_lean_file_monitored prove_informal_monitored prove_lean_code_monitored
      prove_informal_text_monitored get_project_status_monitored get_project_resource_monitored
      list_recent_projects_monitored list_projects_resource_monitored)

end
